theory Spec2Isabelle
  imports Main
begin

section \<open>JavaScript values and the built-ins the session relies on\<close>

text \<open>
  The values that flow through \<open>ChatSession.ts\<close>: the result of \<open>JSON.parse\<close> on an inbound
  frame, the result of \<open>env.AI.run\<close> and of \<open>response.json()\<close>, and the objects handed to
  \<open>JSON.stringify\<close>. A number is represented by its canonical decimal rendering (what
  \<open>Number.prototype.toString\<close> yields: \<open>''0''\<close>, \<open>''1.5''\<close>, \<open>''NaN''\<close>, \<open>''Infinity''\<close>, ...), which
  determines everything the program observes of it: truthiness, interpolation into a
  template literal, and serialisation. An object is the list of its own properties in
  enumeration order. Strings are \<open>char list\<close>.
\<close>

datatype jsval =
    JUndefined
  | JNull
  | JBool bool
  | JNum string
  | JStr string
  | JArr "jsval list"
  | JObj "(string \<times> jsval) list"

text \<open>A thrown \<open>Error\<close> object: its constructor name and its \<open>message\<close>.\<close>

datatype js_error = JsError (err_name: string) (message: string)

definition Error :: "string \<Rightarrow> js_error" where
  "Error msg = JsError ''Error'' msg"

definition TypeError :: "string \<Rightarrow> js_error" where
  "TypeError msg = JsError ''TypeError'' msg"

text \<open>\<open>!v\<close> is \<open>\<not> truthy v\<close>.\<close>

fun truthy :: "jsval \<Rightarrow> bool" where
  "truthy JUndefined = False"
| "truthy JNull = False"
| "truthy (JBool b) = b"
| "truthy (JNum n) = (n \<noteq> ''0'' \<and> n \<noteq> ''NaN'')"
| "truthy (JStr s) = (s \<noteq> [])"
| "truthy (JArr xs) = True"
| "truthy (JObj kvs) = True"

text \<open>
  Property read \<open>v.name\<close>, for the names the program reads (\<open>agent\<close>, \<open>prompt\<close>, \<open>response\<close>,
  \<open>choices\<close>, \<open>message\<close>, \<open>content\<close>, \<open>candidates\<close>, \<open>parts\<close>, \<open>text\<close>): none of them is defined
  on a built-in prototype, so the read yields the own property or \<open>undefined\<close>, and throws
  a \<open>TypeError\<close> on \<open>undefined\<close> and \<open>null\<close>.
\<close>

definition cannot_read :: "string \<Rightarrow> string \<Rightarrow> js_error" where
  "cannot_read what name =
     TypeError (''Cannot read properties of '' @ what @ '' (reading '' @ [CHR 0x27] @ name @ [CHR 0x27] @ '')'')"

fun get_prop :: "jsval \<Rightarrow> string \<Rightarrow> js_error + jsval" where
  "get_prop JUndefined name = Inl (cannot_read ''undefined'' name)"
| "get_prop JNull name = Inl (cannot_read ''null'' name)"
| "get_prop (JObj kvs) name = Inr (case map_of kvs name of None \<Rightarrow> JUndefined | Some x \<Rightarrow> x)"
| "get_prop v name = Inr JUndefined"

text \<open>Element read \<open>v[0]\<close>.\<close>

fun get_index0 :: "jsval \<Rightarrow> js_error + jsval" where
  "get_index0 JUndefined = Inl (cannot_read ''undefined'' ''0'')"
| "get_index0 JNull = Inl (cannot_read ''null'' ''0'')"
| "get_index0 (JArr xs) = Inr (case xs of [] \<Rightarrow> JUndefined | x # _ \<Rightarrow> x)"
| "get_index0 (JStr s) = Inr (case s of [] \<Rightarrow> JUndefined | c # _ \<Rightarrow> JStr [c])"
| "get_index0 (JObj kvs) = Inr (case map_of kvs ''0'' of None \<Rightarrow> JUndefined | Some x \<Rightarrow> x)"
| "get_index0 v = Inr JUndefined"

text \<open>
  Interpolation \<open>`${v}`\<close> (ToString). An array joins its elements with commas, \<open>undefined\<close>
  and \<open>null\<close> elements giving the empty string. A parsed object has no callable own
  property, so it renders as \<open>[object Object]\<close> unless an own \<open>toString\<close> property shadows
  the inherited method, in which case the conversion throws.
\<close>

fun to_string :: "jsval \<Rightarrow> js_error + string"
  and join_elems :: "jsval list \<Rightarrow> js_error + string"
where
  "to_string JUndefined = Inr ''undefined''"
| "to_string JNull = Inr ''null''"
| "to_string (JBool b) = Inr (if b then ''true'' else ''false'')"
| "to_string (JNum n) = Inr n"
| "to_string (JStr s) = Inr s"
| "to_string (JArr xs) = join_elems xs"
| "to_string (JObj kvs) =
     (if map_of kvs ''toString'' = None then Inr ''[object Object]''
      else Inl (TypeError ''Cannot convert object to primitive value''))"
| "join_elems [] = Inr []"
| "join_elems (x # xs) =
     (case (if x = JUndefined \<or> x = JNull then Inr [] else to_string x) of
        Inl e \<Rightarrow> Inl e
      | Inr s \<Rightarrow>
          (if xs = [] then Inr s
           else (case join_elems xs of Inl e \<Rightarrow> Inl e | Inr t \<Rightarrow> Inr (s @ '','' @ t))))"

text \<open>Decimal rendering of a natural number (\<open>`${response.status}`\<close>).\<close>

definition digit_char :: "nat \<Rightarrow> char" where
  "digit_char d = char_of (48 + d)"

function show_nat :: "nat \<Rightarrow> string" where
  "show_nat n = (if n < 10 then [digit_char n] else show_nat (n div 10) @ [digit_char (n mod 10)])"
  by pat_completeness auto
termination
  by (relation "measure id") auto

declare show_nat.simps [simp del]

subsection \<open>\<open>JSON.stringify\<close>\<close>

text \<open>
  String quoting: the two-character escapes for backspace, tab, newline, form feed,
  carriage return, the double quote and the backslash; the six-character form with
  \<open>u00\<close> and two hexadecimal digits for the other control characters; every other
  character as it is.
\<close>

definition hex_digit :: "nat \<Rightarrow> char" where
  "hex_digit d = (if d < 10 then char_of (48 + d) else char_of (87 + d))"

definition quote_char :: "char \<Rightarrow> string" where
  "quote_char c =
     (if c = CHR 0x08 then [CHR 0x5C, CHR ''b'']
      else if c = CHR 0x09 then [CHR 0x5C, CHR ''t'']
      else if c = CHR 0x0A then [CHR 0x5C, CHR ''n'']
      else if c = CHR 0x0C then [CHR 0x5C, CHR ''f'']
      else if c = CHR 0x0D then [CHR 0x5C, CHR ''r'']
      else if c = CHR 0x22 then [CHR 0x5C, CHR 0x22]
      else if c = CHR 0x5C then [CHR 0x5C, CHR 0x5C]
      else if of_char c < (32::nat) then
        [CHR 0x5C, CHR ''u'', CHR ''0'', CHR ''0'',
         hex_digit (of_char c div 16), hex_digit (of_char c mod 16)]
      else [c])"

definition quote :: "string \<Rightarrow> string" where
  "quote s = CHR 0x22 # concat (map quote_char s) @ [CHR 0x22]"

fun join_with :: "string \<Rightarrow> string list \<Rightarrow> string" where
  "join_with sep [] = []"
| "join_with sep [x] = x"
| "join_with sep (x # y # ys) = x @ sep @ join_with sep (y # ys)"

text \<open>
  \<open>serialize v\<close> is \<open>None\<close> where \<open>JSON.stringify\<close> yields \<open>undefined\<close>. A property whose
  value is \<open>undefined\<close> is left out of an object; an \<open>undefined\<close> array element is written
  \<open>null\<close>, as are \<open>NaN\<close> and the infinities.
\<close>

function serialize :: "jsval \<Rightarrow> string option"
  and serialize_elems :: "jsval list \<Rightarrow> string list"
  and serialize_props :: "(string \<times> jsval) list \<Rightarrow> string list"
where
  "serialize JUndefined = None"
| "serialize JNull = Some ''null''"
| "serialize (JBool b) = Some (if b then ''true'' else ''false'')"
| "serialize (JNum n) =
     Some (if n = ''NaN'' \<or> n = ''Infinity'' \<or> n = ''-Infinity'' then ''null'' else n)"
| "serialize (JStr s) = Some (quote s)"
| "serialize (JArr xs) = Some (''['' @ join_with '','' (serialize_elems xs) @ '']'')"
| "serialize (JObj kvs) = Some (''{'' @ join_with '','' (serialize_props kvs) @ ''}'')"
| "serialize_elems [] = []"
| "serialize_elems (x # xs) =
     (case serialize x of None \<Rightarrow> ''null'' | Some t \<Rightarrow> t) # serialize_elems xs"
| "serialize_props [] = []"
| "serialize_props ((k, v) # kvs) =
     (case serialize v of
        None \<Rightarrow> serialize_props kvs
      | Some t \<Rightarrow> (quote k @ '':'' @ t) # serialize_props kvs)"
  by pat_completeness auto
termination
  by (relation "measure (\<lambda>x. case x of
         Inl v \<Rightarrow> size v
       | Inr (Inl xs) \<Rightarrow> size_list size xs
       | Inr (Inr kvs) \<Rightarrow> size_list (size_prod (\<lambda>_. 0) size) kvs)") auto

text \<open>\<open>JSON.stringify\<close> of an object literal: always a string.\<close>

definition JSON_stringify :: "(string \<times> jsval) list \<Rightarrow> string" where
  "JSON_stringify props = ''{'' @ join_with '','' (serialize_props props) @ ''}''"

section \<open>The world a session acts on\<close>

text \<open>
  What a handler run can change: the server side of the WebSocket pair (whether it can
  still send, and the frames sent so far), the identifiers drawn from
  \<open>crypto.randomUUID\<close>, the calls issued to the backends, and the console. The session
  never calls \<open>close()\<close>, and a client's close frame leaves the server side able to send:
  the socket stops being \<open>Open\<close> only when the connection itself is lost.
\<close>

datatype ready_state = Open | Closed

record http_request =
  req_url :: string
  req_method :: string
  req_headers :: "(string \<times> string) list"
  req_body :: string

text \<open>
  A \<open>Response\<close> of \<open>fetch\<close>: the status, and what reading the body gives (\<open>response.text()\<close>
  rejects when the transfer breaks).
\<close>

record http_response =
  status :: nat
  body_text :: "js_error + string"

definition ok :: "http_response \<Rightarrow> bool" where
  "ok r = (200 \<le> status r \<and> status r \<le> 299)"

datatype backend_call =
    AiRun string jsval
  | Fetch http_request

datatype log_entry =
    ConsoleError string js_error
  | ConsoleLog string

record world =
  socket :: ready_state
  outbox :: "string list"
  uuids_drawn :: nat
  calls :: "backend_call list"
  console :: "log_entry list"

text \<open>
  The platform and the injected environment (\<open>this.env\<close>), none of which is code of the
  repository: \<open>JSON.parse\<close>, \<open>crypto.randomUUID\<close> (the k-th identifier drawn), the Workers AI
  binding, \<open>fetch\<close>, the two API keys, and what happens to the connection while a given
  backend call is awaited: the client may send its close frame, and the connection may be
  lost (with the error that the \<open>error\<close> event carries).
\<close>

record runtime =
  json_parse :: "string \<Rightarrow> js_error + jsval"
  random_uuid :: "nat \<Rightarrow> string"
  ai_run :: "string \<Rightarrow> jsval \<Rightarrow> js_error + jsval"
  http_fetch :: "http_request \<Rightarrow> js_error + http_response"
  OPENAI_API_KEY :: string
  GEMINI_API_KEY :: string
  client_closes_during :: "backend_call \<Rightarrow> bool"
  connection_lost_during :: "backend_call \<Rightarrow> js_error option"

subsection \<open>Sequencing, \<open>throw\<close> and \<open>try\<close>/\<open>catch\<close>\<close>

type_synonym 'a prog = "world \<Rightarrow> (js_error + 'a) \<times> world"

definition raise :: "js_error \<Rightarrow> 'a prog" where
  "raise e w = (Inl e, w)"

definition lift :: "js_error + 'a \<Rightarrow> 'a prog" where
  "lift r w = (r, w)"

text \<open>The same for a computation without effects: the first throw ends it.\<close>

definition seq :: "js_error + 'a \<Rightarrow> ('a \<Rightarrow> js_error + 'b) \<Rightarrow> js_error + 'b" where
  "seq r f = (case r of Inl e \<Rightarrow> Inl e | Inr x \<Rightarrow> f x)"

definition and_then :: "'a prog \<Rightarrow> ('a \<Rightarrow> 'b prog) \<Rightarrow> 'b prog" where
  "and_then m f w = (case m w of (Inl e, w') \<Rightarrow> (Inl e, w') | (Inr x, w') \<Rightarrow> f x w')"

definition try_catch :: "'a prog \<Rightarrow> (js_error \<Rightarrow> 'a prog) \<Rightarrow> 'a prog" where
  "try_catch m h w = (case m w of (Inl e, w') \<Rightarrow> h e w' | (Inr x, w') \<Rightarrow> (Inr x, w'))"

subsection \<open>Primitive effects\<close>

definition console_error :: "string \<Rightarrow> js_error \<Rightarrow> unit prog" where
  "console_error label e w = (Inr (), w\<lparr>console := console w @ [ConsoleError label e]\<rparr>)"

definition console_log :: "string \<Rightarrow> unit prog" where
  "console_log text w = (Inr (), w\<lparr>console := console w @ [ConsoleLog text]\<rparr>)"

definition crypto_randomUUID :: "runtime \<Rightarrow> string prog" where
  "crypto_randomUUID rt w =
     (Inr (random_uuid rt (uuids_drawn w)), w\<lparr>uuids_drawn := Suc (uuids_drawn w)\<rparr>)"

text \<open>
  \<open>server.send\<close> on the accepted socket does not throw: while the socket is open the
  frame goes out, and once the connection is lost the frame is discarded.
\<close>

definition server_send :: "string \<Rightarrow> unit prog" where
  "server_send frame w =
     (case socket w of
        Open \<Rightarrow> (Inr (), w\<lparr>outbox := outbox w @ [frame]\<rparr>)
      | Closed \<Rightarrow> (Inr (), w))"

text \<open>The \<open>close\<close> listener: it only logs.\<close>

definition on_close :: "unit prog" where
  "on_close = console_log ''WebSocket connection closed.''"

text \<open>The \<open>error\<close> listener.\<close>

definition on_error :: "js_error \<Rightarrow> unit prog" where
  "on_error e = console_error ''WebSocket error:'' e"

text \<open>
  The client's close frame arrives: the \<open>close\<close> listener runs, and the server side can
  still send. The connection is lost: the \<open>error\<close> and the \<open>close\<close> listeners run, and
  nothing can be sent any more.
\<close>

definition client_close :: "world \<Rightarrow> world" where
  "client_close w = snd (on_close w)"

definition connection_lost :: "js_error \<Rightarrow> world \<Rightarrow> world" where
  "connection_lost e w = snd (on_close (snd (on_error e (w\<lparr>socket := Closed\<rparr>))))"

text \<open>
  Awaiting a backend call: the call is issued (and recorded), and the handler is
  suspended until it settles; the client may have closed, or the connection may have been
  lost, by then.
\<close>

definition resumed :: "runtime \<Rightarrow> backend_call \<Rightarrow> world \<Rightarrow> world" where
  "resumed rt c w =
     (let w1 = w\<lparr>calls := calls w @ [c]\<rparr>
      in if socket w1 = Closed then w1
         else (case connection_lost_during rt c of
                 Some e \<Rightarrow> connection_lost e w1
               | None \<Rightarrow> if client_closes_during rt c then client_close w1 else w1))"

definition await_call :: "runtime \<Rightarrow> backend_call \<Rightarrow> (js_error + 'a) \<Rightarrow> 'a prog" where
  "await_call rt c r w = (r, resumed rt c w)"

definition env_AI_run :: "runtime \<Rightarrow> string \<Rightarrow> jsval \<Rightarrow> jsval prog" where
  "env_AI_run rt model input = await_call rt (AiRun model input) (ai_run rt model input)"

definition fetch :: "runtime \<Rightarrow> http_request \<Rightarrow> http_response prog" where
  "fetch rt req = await_call rt (Fetch req) (http_fetch rt req)"

definition response_text :: "http_response \<Rightarrow> string prog" where
  "response_text r = lift (body_text r)"

definition response_json :: "runtime \<Rightarrow> http_response \<Rightarrow> jsval prog" where
  "response_json rt r =
     lift (seq (body_text r) (json_parse rt))"

section \<open>\<open>ChatSession\<close>\<close>

subsection \<open>The three adapters\<close>

definition cloudflare_failed :: js_error where
  "cloudflare_failed = Error ''Failed to generate response with Cloudflare AI.''"

definition openai_failed :: js_error where
  "openai_failed = Error ''Failed to generate response with OpenAI.''"

definition gemini_failed :: js_error where
  "gemini_failed = Error ''Failed to generate response with Gemini.''"

definition cloudflare_input :: "jsval \<Rightarrow> jsval" where
  "cloudflare_input prompt =
     JObj [(''messages'', JArr [JObj [(''role'', JStr ''user''), (''content'', prompt)]])]"

definition cloudflare_model :: string where
  "cloudflare_model = ''@cf/meta/llama-3-8b-instruct''"

definition generateWithCloudflare :: "runtime \<Rightarrow> jsval \<Rightarrow> jsval prog" where
  "generateWithCloudflare rt prompt =
     try_catch
       (and_then (env_AI_run rt cloudflare_model (cloudflare_input prompt))
          (\<lambda>response. lift (get_prop response ''response'')))
       (\<lambda>err. and_then (console_error ''Cloudflare AI call failed:'' err)
          (\<lambda>_. raise cloudflare_failed))"

definition openai_request :: "runtime \<Rightarrow> jsval \<Rightarrow> http_request" where
  "openai_request rt prompt =
     \<lparr>req_url = ''https://api.openai.com/v1/chat/completions'',
      req_method = ''POST'',
      req_headers =
        [(''Content-Type'', ''application/json''),
         (''Authorization'', ''Bearer '' @ OPENAI_API_KEY rt)],
      req_body =
        JSON_stringify
          [(''model'', JStr ''gpt-4o''),
           (''messages'', JArr [JObj [(''role'', JStr ''user''), (''content'', prompt)]])]\<rparr>"

text \<open>The expression \<open>result.choices[0].message.content\<close>.\<close>

definition openai_content :: "jsval \<Rightarrow> js_error + jsval" where
  "openai_content result =
     seq (get_prop result ''choices'') (\<lambda>choices.
     seq (get_index0 choices) (\<lambda>choice.
     seq (get_prop choice ''message'') (\<lambda>msg.
     get_prop msg ''content'')))"

definition generateWithOpenAI :: "runtime \<Rightarrow> jsval \<Rightarrow> jsval prog" where
  "generateWithOpenAI rt prompt =
     try_catch
       (and_then (fetch rt (openai_request rt prompt))
          (\<lambda>response.
             if \<not> ok response then
               and_then (response_text response)
                 (\<lambda>text. raise (Error (''OpenAI API responded with status ''
                                          @ show_nat (status response) @ '': '' @ text)))
             else
               and_then (response_json rt response)
                 (\<lambda>result. lift (openai_content result))))
       (\<lambda>err. and_then (console_error ''OpenAI API call failed:'' err)
          (\<lambda>_. raise openai_failed))"

definition gemini_request :: "runtime \<Rightarrow> jsval \<Rightarrow> http_request" where
  "gemini_request rt prompt =
     \<lparr>req_url =
        ''https://generativelanguage.googleapis.com/v1beta/models/gemini-2.5-flash:generateContent?key=''
        @ GEMINI_API_KEY rt,
      req_method = ''POST'',
      req_headers = [(''Content-Type'', ''application/json'')],
      req_body =
        JSON_stringify
          [(''contents'',
            JArr [JObj [(''role'', JStr ''user''),
                        (''parts'', JArr [JObj [(''text'', prompt)]])]])]\<rparr>"

text \<open>The expression \<open>result.candidates[0].content.parts[0].text\<close>.\<close>

definition gemini_text :: "jsval \<Rightarrow> js_error + jsval" where
  "gemini_text result =
     seq (get_prop result ''candidates'') (\<lambda>candidates.
     seq (get_index0 candidates) (\<lambda>candidate.
     seq (get_prop candidate ''content'') (\<lambda>content.
     seq (get_prop content ''parts'') (\<lambda>parts.
     seq (get_index0 parts) (\<lambda>part.
     get_prop part ''text'')))))"

definition generateWithGemini :: "runtime \<Rightarrow> jsval \<Rightarrow> jsval prog" where
  "generateWithGemini rt prompt =
     try_catch
       (and_then (fetch rt (gemini_request rt prompt))
          (\<lambda>response.
             if \<not> ok response then
               and_then (response_text response)
                 (\<lambda>text. raise (Error (''Gemini API responded with status ''
                                          @ show_nat (status response) @ '': '' @ text)))
             else
               and_then (response_json rt response)
                 (\<lambda>result. lift (gemini_text result))))
       (\<lambda>err. and_then (console_error ''Gemini API call failed:'' err)
          (\<lambda>_. raise gemini_failed))"

subsection \<open>The router\<close>

definition unsupported_agent :: "string \<Rightarrow> js_error" where
  \<open>unsupported_agent a =
     Error (''Unsupported agent type: '' @ a @ ''. Please use 'cloudflare', 'openai', or 'gemini'.'')\<close>

definition generate :: "runtime \<Rightarrow> jsval \<Rightarrow> jsval prog" where
  "generate rt msg =
     and_then (lift (get_prop msg ''agent''))
       (\<lambda>agent.
          if agent = JStr ''cloudflare'' then
            and_then (lift (get_prop msg ''prompt'')) (generateWithCloudflare rt)
          else if agent = JStr ''openai'' then
            and_then (lift (get_prop msg ''prompt'')) (generateWithOpenAI rt)
          else if agent = JStr ''gemini'' then
            and_then (lift (get_prop msg ''prompt'')) (generateWithGemini rt)
          else
            and_then (lift (get_prop msg ''agent''))
              (\<lambda>a. and_then (lift (to_string a)) (\<lambda>s. raise (unsupported_agent s))))"

subsection \<open>The message listener\<close>

definition invalid_format :: string where
  \<open>invalid_format = ''Invalid message format. Please provide both "agent" and "prompt".''\<close>

text \<open>The frame \<open>JSON.stringify({ id, role, content })\<close>.\<close>

definition frame :: "string \<Rightarrow> string \<Rightarrow> jsval \<Rightarrow> string" where
  "frame ident role content =
     JSON_stringify [(''id'', JStr ident), (''role'', JStr role), (''content'', content)]"

definition reply :: "runtime \<Rightarrow> string \<Rightarrow> jsval \<Rightarrow> unit prog" where
  "reply rt role content =
     and_then (crypto_randomUUID rt) (\<lambda>ident. server_send (frame ident role content))"

text \<open>The condition \<open>!message.agent || !message.prompt\<close>.\<close>

definition rejected :: "jsval \<Rightarrow> js_error + bool" where
  "rejected msg =
     seq (get_prop msg ''agent'') (\<lambda>agent.
       if \<not> truthy agent then Inr True
       else seq (get_prop msg ''prompt'') (\<lambda>prompt. Inr (\<not> truthy prompt)))"

text \<open>The \<open>catch\<close> block of the listener.\<close>

definition failure_reply :: "runtime \<Rightarrow> js_error \<Rightarrow> unit prog" where
  "failure_reply rt err =
     and_then (console_error ''Error processing WebSocket message:'' err)
       (\<lambda>_. reply rt ''error'' (JStr (''Failed to process your request: '' @ message err)))"

definition on_message :: "runtime \<Rightarrow> string \<Rightarrow> unit prog" where
  "on_message rt data =
     try_catch
       (and_then (lift (json_parse rt data))
          (\<lambda>msg. and_then (lift (rejected msg))
             (\<lambda>bad.
                if bad then reply rt ''error'' (JStr invalid_format)
                else and_then (generate rt msg) (\<lambda>response. reply rt ''assistant'' response))))
       (failure_reply rt)"

subsection \<open>\<open>fetch\<close>: the upgrade\<close>

definition accepted :: world where
  "accepted = \<lparr>socket = Open, outbox = [], uuids_drawn = 0, calls = [], console = []\<rparr>"

text \<open>
  The status of the response, and the server socket when the request asked for an
  upgrade (the value of its \<open>Upgrade\<close> header is \<open>websocket\<close>).
\<close>

definition session_fetch :: "string option \<Rightarrow> nat \<times> world option" where
  "session_fetch upgrade =
     (if upgrade = Some ''websocket'' then (101, Some accepted) else (200, None))"

section \<open>The outbound response and its wire form\<close>

text \<open>
  The canonical response of the specification: an identifier, a role and a text. Its wire
  form is what the listener sends, \<open>JSON.stringify({ id, role, content })\<close>.
\<close>

datatype role = RoleAssistant | RoleError

record outbound_response =
  response_id :: string
  response_role :: role
  response_content :: string

definition role_name :: "role \<Rightarrow> string" where
  "role_name r = (case r of RoleAssistant \<Rightarrow> ''assistant'' | RoleError \<Rightarrow> ''error'')"

definition encode :: "outbound_response \<Rightarrow> string" where
  "encode r = frame (response_id r) (role_name (response_role r)) (JStr (response_content r))"

text \<open>
  Modelled from the spec: reading a JSON string literal, the part of decoding an outbound
  frame that undoes the quoting of \<open>JSON.stringify\<close>. The repository contains no decoder
  (a client would call \<open>JSON.parse\<close>). The two-character escapes and the form with four
  hexadecimal digits are accepted, a raw control character is not; an escape that names a
  character beyond the 8-bit \<open>char\<close> of this model is refused.
\<close>

definition hex_value :: "char \<Rightarrow> nat option" where
  "hex_value c =
     (let n = of_char c :: nat in
      if 48 \<le> n \<and> n \<le> 57 then Some (n - 48)
      else if 97 \<le> n \<and> n \<le> 102 then Some (n - 87)
      else if 65 \<le> n \<and> n \<le> 70 then Some (n - 55)
      else None)"

definition unescape :: "char \<Rightarrow> char option" where
  "unescape c =
     (if c = CHR 0x22 then Some (CHR 0x22)
      else if c = CHR 0x5C then Some (CHR 0x5C)
      else if c = CHR ''/'' then Some (CHR ''/'')
      else if c = CHR ''b'' then Some (CHR 0x08)
      else if c = CHR ''f'' then Some (CHR 0x0C)
      else if c = CHR ''n'' then Some (CHR 0x0A)
      else if c = CHR ''r'' then Some (CHR 0x0D)
      else if c = CHR ''t'' then Some (CHR 0x09)
      else None)"

definition code_unit :: "char \<Rightarrow> char \<Rightarrow> char \<Rightarrow> char \<Rightarrow> char option" where
  "code_unit h1 h2 h3 h4 =
     (case (hex_value h1, hex_value h2, hex_value h3, hex_value h4) of
        (Some a, Some b, Some c, Some d) \<Rightarrow>
          (let n = ((a * 16 + b) * 16 + c) * 16 + d
           in if n < 256 then Some (char_of n) else None)
      | _ \<Rightarrow> None)"

definition push :: "char \<Rightarrow> (string \<times> string) option \<Rightarrow> (string \<times> string) option" where
  "push c r = (case r of None \<Rightarrow> None | Some (s, rest) \<Rightarrow> Some (c # s, rest))"

text \<open>The characters of a string literal up to its closing quote, and what follows it.\<close>

fun read_chars :: "string \<Rightarrow> (string \<times> string) option" where
  "read_chars [] = None"
| "read_chars (c # cs) =
     (if c = CHR 0x22 then Some ([], cs)
      else if c = CHR 0x5C then
        (case cs of
           [] \<Rightarrow> None
         | e # cs1 \<Rightarrow>
             if e = CHR ''u'' then
               (case cs1 of
                  h1 # h2 # h3 # h4 # cs2 \<Rightarrow>
                    (case code_unit h1 h2 h3 h4 of
                       None \<Rightarrow> None
                     | Some ch \<Rightarrow> push ch (read_chars cs2))
                | _ \<Rightarrow> None)
             else
               (case unescape e of
                  None \<Rightarrow> None
                | Some ch \<Rightarrow> push ch (read_chars cs1)))
      else if of_char c < (32::nat) then None
      else push c (read_chars cs))"

definition read_string :: "string \<Rightarrow> (string \<times> string) option" where
  "read_string s = (case s of [] \<Rightarrow> None | c # cs \<Rightarrow> if c = CHR 0x22 then read_chars cs else None)"

definition expect :: "string \<Rightarrow> string \<Rightarrow> string option" where
  "expect p s = (if take (length p) s = p then Some (drop (length p) s) else None)"

definition role_of :: "string \<Rightarrow> role option" where
  "role_of s =
     (if s = ''assistant'' then Some RoleAssistant
      else if s = ''error'' then Some RoleError
      else None)"

text \<open>
  Modelled from the spec: the decoding of an outbound frame, which the repository does not
  contain. It reads the wire shape of the specification's external interfaces: an object
  with the string members \<open>id\<close>, \<open>role\<close> and \<open>content\<close>, in this order, the role being
  \<open>assistant\<close> or \<open>error\<close>.
\<close>

definition decode :: "string \<Rightarrow> outbound_response option" where
  \<open>decode raw =
     (case expect ''{"id":'' raw of None \<Rightarrow> None | Some s1 \<Rightarrow>
     (case read_string s1 of None \<Rightarrow> None | Some (ident, s2) \<Rightarrow>
     (case expect '',"role":'' s2 of None \<Rightarrow> None | Some s3 \<Rightarrow>
     (case read_string s3 of None \<Rightarrow> None | Some (r, s4) \<Rightarrow>
     (case expect '',"content":'' s4 of None \<Rightarrow> None | Some s5 \<Rightarrow>
     (case read_string s5 of None \<Rightarrow> None | Some (content, s6) \<Rightarrow>
        if s6 = ''}'' then
          (case role_of r of
             None \<Rightarrow> None
           | Some ro \<Rightarrow>
               Some \<lparr>response_id = ident, response_role = ro, response_content = content\<rparr>)
        else None))))))\<close>

section \<open>Derived descriptions\<close>

text \<open>
  What the \<open>try\<close> block of an HTTP adapter makes of the settled \<open>Response\<close>: \<open>name\<close> is the
  provider's name in the message, \<open>path\<close> the property path read from the parsed body.
\<close>

definition http_outcome ::
  "string \<Rightarrow> runtime \<Rightarrow> (jsval \<Rightarrow> js_error + jsval) \<Rightarrow> http_response \<Rightarrow> js_error + jsval" where
  "http_outcome name rt path response =
     (if \<not> ok response then
        seq (body_text response)
          (\<lambda>text. Inl (Error (name @ '' API responded with status ''
                               @ show_nat (status response) @ '': '' @ text)))
      else seq (seq (body_text response) (json_parse rt)) path)"

subsection \<open>A stubbed platform\<close>

text \<open>
  The platform of the specification's concrete scenario: a parser that knows the payloads
  of the scenario, a Workers AI binding and a \<open>fetch\<close> that answer what they are told to,
  and a connection on which nothing happens meanwhile.
\<close>

definition scenario_parse :: "string \<Rightarrow> js_error + jsval" where
  \<open>scenario_parse text =
     (case map_of
        [(''{"agent":"cloudflare","prompt":"hi"}'',
            JObj [(''agent'', JStr ''cloudflare''), (''prompt'', JStr ''hi'')]),
         (''{"agent":"openai","prompt":"hi"}'',
            JObj [(''agent'', JStr ''openai''), (''prompt'', JStr ''hi'')]),
         (''{"agent":"bogus","prompt":"hi"}'',
            JObj [(''agent'', JStr ''bogus''), (''prompt'', JStr ''hi'')]),
         (''{"prompt":"hi"}'',
            JObj [(''prompt'', JStr ''hi'')]),
         (''{"agent":"gemini","prompt":"hi"}'',
            JObj [(''agent'', JStr ''gemini''), (''prompt'', JStr ''hi'')]),
         (''{"agent":"cloudflare","prompt":5}'',
            JObj [(''agent'', JStr ''cloudflare''), (''prompt'', JNum ''5'')]),
         (''{"agent":{"toString":1},"prompt":"hi"}'',
            JObj [(''agent'', JObj [(''toString'', JNum ''1'')]), (''prompt'', JStr ''hi'')]),
         (''{"choices":[{"message":{"content":"hello"}}]}'',
            JObj [(''choices'', JArr [JObj [(''message'', JObj [(''content'', JStr ''hello'')])]])]),
         (''{"choices":[{"message":{"content":""}}]}'',
            JObj [(''choices'', JArr [JObj [(''message'', JObj [(''content'', JStr [])])]])]),
         (''{"choices":[{"message":{}}]}'',
            JObj [(''choices'', JArr [JObj [(''message'', JObj [])]])]),
         (''{"choices":[]}'',
            JObj [(''choices'', JArr [])]),
         (''{"candidates":[{"content":{"parts":[{"text":"hello"}]}}]}'',
            JObj [(''candidates'',
                   JArr [JObj [(''content'',
                                JObj [(''parts'', JArr [JObj [(''text'', JStr ''hello'')]])])]])]),
         (''{"candidates":[{"content":{"parts":[{}]}}]}'',
            JObj [(''candidates'',
                   JArr [JObj [(''content'', JObj [(''parts'', JArr [JObj []])])]])]),
         (''{"candidates":[]}'',
            JObj [(''candidates'', JArr [])])]
        text of
        Some v \<Rightarrow> Inr v
      | None \<Rightarrow> Inl (JsError ''SyntaxError'' ''Unexpected token''))\<close>

definition scenario :: "(js_error + jsval) \<Rightarrow> (js_error + http_response) \<Rightarrow> runtime" where
  "scenario ai http =
     \<lparr>json_parse = scenario_parse,
      random_uuid = (\<lambda>k. ''id-'' @ show_nat k),
      ai_run = (\<lambda>model input. ai),
      http_fetch = (\<lambda>req. http),
      OPENAI_API_KEY = ''sk-test'',
      GEMINI_API_KEY = ''g-test'',
      client_closes_during = (\<lambda>c. False),
      connection_lost_during = (\<lambda>c. None)\<rparr>"

text \<open>
  Three instances: a Workers AI binding that answers \<open>hello\<close>; a remote API that answers
  200 with a given body; a remote API that answers 500 with a given body.
\<close>

definition hello_platform :: runtime where
  "hello_platform =
     scenario (Inr (JObj [(''response'', JStr ''hello'')])) (Inl (TypeError ''fetch failed''))"

definition answering_platform :: "string \<Rightarrow> runtime" where
  "answering_platform body =
     scenario (Inr (JObj [])) (Inr \<lparr>status = 200, body_text = Inr body\<rparr>)"

definition refusing_platform :: "string \<Rightarrow> runtime" where
  "refusing_platform body =
     scenario (Inl (Error body)) (Inr \<lparr>status = 500, body_text = Inr body\<rparr>)"



section \<open>Effects of the primitives\<close>

lemma reply_open:
  "socket w = Open \<Longrightarrow>
   reply rt role content w =
     (Inr (), w\<lparr>uuids_drawn := Suc (uuids_drawn w),
                outbox := outbox w @ [frame (random_uuid rt (uuids_drawn w)) role content]\<rparr>)"
  by (simp add: reply_def and_then_def crypto_randomUUID_def server_send_def)

lemma reply_closed:
  "socket w = Closed \<Longrightarrow>
   reply rt role content w = (Inr (), w\<lparr>uuids_drawn := Suc (uuids_drawn w)\<rparr>)"
  by (simp add: reply_def and_then_def crypto_randomUUID_def server_send_def)

lemma reply_returns: "fst (reply rt role content w) = Inr ()"
  by (cases "socket w") (simp_all add: reply_open reply_closed)

lemma failure_reply_open:
  "socket w = Open \<Longrightarrow>
   failure_reply rt err w =
     (Inr (), w\<lparr>console := console w @ [ConsoleError ''Error processing WebSocket message:'' err],
                uuids_drawn := Suc (uuids_drawn w),
                outbox := outbox w @ [frame (random_uuid rt (uuids_drawn w)) ''error''
                     (JStr (''Failed to process your request: '' @ message err))]\<rparr>)"
  by (simp add: failure_reply_def and_then_def console_error_def reply_open)



lemma resumed_fields:
  "outbox (resumed rt c w) = outbox w"
  "uuids_drawn (resumed rt c w) = uuids_drawn w"
  "calls (resumed rt c w) = calls w @ [c]"
  "socket (resumed rt c w) = (if connection_lost_during rt c = None then socket w else Closed)"
  by (cases "socket w";
      simp add: resumed_def Let_def client_close_def connection_lost_def on_close_def
        on_error_def console_log_def console_error_def split: option.splits)+

section \<open>The adapters and the router, in closed form\<close>

lemma generateWithCloudflare_eq:
  "generateWithCloudflare rt prompt w =
     (let w1 = resumed rt (AiRun cloudflare_model (cloudflare_input prompt)) w in
      case seq (ai_run rt cloudflare_model (cloudflare_input prompt)) (\<lambda>r. get_prop r ''response'') of
        Inr v \<Rightarrow> (Inr v, w1)
      | Inl e \<Rightarrow> (Inl cloudflare_failed,
                  w1\<lparr>console := console w1 @ [ConsoleError ''Cloudflare AI call failed:'' e]\<rparr>))"
  by (simp add: generateWithCloudflare_def try_catch_def and_then_def env_AI_run_def await_call_def
      lift_def seq_def console_error_def raise_def Let_def split: sum.splits)

lemma generateWithOpenAI_eq:
  "generateWithOpenAI rt prompt w =
     (let w1 = resumed rt (Fetch (openai_request rt prompt)) w in
      case seq (http_fetch rt (openai_request rt prompt)) (http_outcome ''OpenAI'' rt openai_content) of
        Inr v \<Rightarrow> (Inr v, w1)
      | Inl e \<Rightarrow> (Inl openai_failed,
                  w1\<lparr>console := console w1 @ [ConsoleError ''OpenAI API call failed:'' e]\<rparr>))"
  by (simp add: generateWithOpenAI_def try_catch_def and_then_def fetch_def await_call_def
      http_outcome_def response_text_def response_json_def
      lift_def seq_def console_error_def raise_def Let_def split: sum.splits)

lemma generateWithGemini_eq:
  "generateWithGemini rt prompt w =
     (let w1 = resumed rt (Fetch (gemini_request rt prompt)) w in
      case seq (http_fetch rt (gemini_request rt prompt)) (http_outcome ''Gemini'' rt gemini_text) of
        Inr v \<Rightarrow> (Inr v, w1)
      | Inl e \<Rightarrow> (Inl gemini_failed,
                  w1\<lparr>console := console w1 @ [ConsoleError ''Gemini API call failed:'' e]\<rparr>))"
  by (simp add: generateWithGemini_def try_catch_def and_then_def fetch_def await_call_def
      http_outcome_def response_text_def response_json_def
      lift_def seq_def console_error_def raise_def Let_def split: sum.splits)

lemma generate_eq:
  "generate rt msg w =
     (case get_prop msg ''agent'' of
        Inl e \<Rightarrow> (Inl e, w)
      | Inr agent \<Rightarrow>
          if agent = JStr ''cloudflare'' \<or> agent = JStr ''openai'' \<or> agent = JStr ''gemini'' then
            (case get_prop msg ''prompt'' of
               Inl e \<Rightarrow> (Inl e, w)
             | Inr prompt \<Rightarrow>
                 if agent = JStr ''cloudflare'' then generateWithCloudflare rt prompt w
                 else if agent = JStr ''openai'' then generateWithOpenAI rt prompt w
                 else generateWithGemini rt prompt w)
          else (case to_string agent of
                  Inl e \<Rightarrow> (Inl e, w)
                | Inr s \<Rightarrow> (Inl (unsupported_agent s), w)))"
  by (simp add: generate_def and_then_def lift_def raise_def split: sum.splits)

lemma adapter_frame:
  "outbox (snd (generateWithCloudflare rt p w)) = outbox w"
  "uuids_drawn (snd (generateWithCloudflare rt p w)) = uuids_drawn w"
  "outbox (snd (generateWithOpenAI rt p w)) = outbox w"
  "uuids_drawn (snd (generateWithOpenAI rt p w)) = uuids_drawn w"
  "outbox (snd (generateWithGemini rt p w)) = outbox w"
  "uuids_drawn (snd (generateWithGemini rt p w)) = uuids_drawn w"
  by (simp_all add: generateWithCloudflare_eq generateWithOpenAI_eq generateWithGemini_eq
      Let_def resumed_fields split: sum.splits)

lemma generate_frame:
  "outbox (snd (generate rt msg w)) = outbox w"
  "uuids_drawn (snd (generate rt msg w)) = uuids_drawn w"
  by (simp_all add: generate_eq adapter_frame split: sum.splits)

lemma adapter_socket:
  assumes "\<forall>c. connection_lost_during rt c = None"
  shows "socket (snd (generateWithCloudflare rt p w)) = socket w"
    and "socket (snd (generateWithOpenAI rt p w)) = socket w"
    and "socket (snd (generateWithGemini rt p w)) = socket w"
  using assms
  by (simp_all add: generateWithCloudflare_eq generateWithOpenAI_eq generateWithGemini_eq
      Let_def resumed_fields split: sum.splits)

lemma generate_socket:
  assumes "\<forall>c. connection_lost_during rt c = None"
  shows "socket (snd (generate rt msg w)) = socket w"
  using assms by (simp add: generate_eq adapter_socket split: sum.splits)




section \<open>The listener, in closed form\<close>

lemma on_message_eq:
  "on_message rt data w =
     (case json_parse rt data of
        Inl e \<Rightarrow> failure_reply rt e w
      | Inr msg \<Rightarrow>
          (case rejected msg of
             Inl e \<Rightarrow> failure_reply rt e w
           | Inr True \<Rightarrow> reply rt ''error'' (JStr invalid_format) w
           | Inr False \<Rightarrow>
               (case generate rt msg w of
                  (Inl e, w1) \<Rightarrow> failure_reply rt e w1
                | (Inr t, w1) \<Rightarrow> reply rt ''assistant'' t w1)))"
proof -
  have r: "(case reply rt role c v of
              (Inl e, v1) \<Rightarrow> failure_reply rt e v1
            | (Inr u, v1) \<Rightarrow> (Inr u, v1)) = reply rt role c v" for role c v
    using reply_returns [of rt role c v] by (cases "reply rt role c v") auto
  show ?thesis
    by (simp add: on_message_def try_catch_def and_then_def lift_def r
        split: sum.splits prod.splits bool.splits)
qed


section \<open>One response for every inbound message\<close>

lemma on_message_open_cases:
  assumes "socket w = Open" and "\<forall>c. connection_lost_during rt c = None"
  obtains
    (relayed) msg t w1 where
      "json_parse rt data = Inr msg" "rejected msg = Inr False" "generate rt msg w = (Inr t, w1)"
      "on_message rt data w = reply rt ''assistant'' t w1"
      "socket w1 = Open" "outbox w1 = outbox w" "uuids_drawn w1 = uuids_drawn w"
  | (invalid) msg where
      "json_parse rt data = Inr msg" "rejected msg = Inr True"
      "on_message rt data w = reply rt ''error'' (JStr invalid_format) w"
  | (failed) e w1 where
      "on_message rt data w = failure_reply rt e w1"
      "socket w1 = Open" "outbox w1 = outbox w" "uuids_drawn w1 = uuids_drawn w"
      "\<not> (\<exists>msg t. json_parse rt data = Inr msg \<and> rejected msg = Inr False
                  \<and> fst (generate rt msg w) = Inr t)"
proof (cases "json_parse rt data")
  case (Inl e)
  then show ?thesis
    using assms failed [of e w] by (simp add: on_message_eq)
next
  case parsed: (Inr msg)
  show ?thesis
  proof (cases "rejected msg")
    case (Inl e)
    with parsed show ?thesis
      using assms failed [of e w] by (simp add: on_message_eq)
  next
    case (Inr bad)
    show ?thesis
    proof (cases bad)
      case True
      with parsed Inr show ?thesis
        using assms invalid [of msg] by (simp add: on_message_eq)
    next
      case False
      obtain r w1 where gen: "generate rt msg w = (r, w1)"
        by (cases "generate rt msg w")
      have w1: "socket w1 = Open" "outbox w1 = outbox w" "uuids_drawn w1 = uuids_drawn w"
        using generate_socket [OF assms(2), of msg w] generate_frame [of rt msg w] gen assms(1)
        by simp_all
      show ?thesis
      proof (cases r)
        case (Inl e)
        with parsed \<open>rejected msg = Inr bad\<close> False gen w1 show ?thesis
          using assms failed [of e w1] by (simp add: on_message_eq)
      next
        case (Inr t)
        with parsed \<open>rejected msg = Inr bad\<close> False gen w1 show ?thesis
          using assms relayed [of msg t w1] by (simp add: on_message_eq)
      qed
    qed
  qed
qed


text \<open>
  C1. Exactly one frame is written on every path, but not every failure gets the role
  \<open>error\<close>: a backend failure that does not make the adapter throw is relayed as a
  success. Here Gemini answers 200 with a body whose first part has no \<open>text\<close>; the
  adapter returns \<open>undefined\<close> and the one frame written has the role \<open>assistant\<close> and no
  content.
\<close>

theorem malformed_answer_gets_role_assistant:
  \<open>json_parse (answering_platform ''{"candidates":[{"content":{"parts":[{}]}}]}'')
       ''{"candidates":[{"content":{"parts":[{}]}}]}''
     = Inr (JObj [(''candidates'',
                   JArr [JObj [(''content'', JObj [(''parts'', JArr [JObj []])])]])]) \<and>
   fst (generate (answering_platform ''{"candidates":[{"content":{"parts":[{}]}}]}'')
          (JObj [(''agent'', JStr ''gemini''), (''prompt'', JStr ''hi'')]) accepted)
     = Inr JUndefined \<and>
   fst (on_message (answering_platform ''{"candidates":[{"content":{"parts":[{}]}}]}'')
          ''{"agent":"gemini","prompt":"hi"}'' accepted) = Inr () \<and>
   outbox (snd (on_message (answering_platform ''{"candidates":[{"content":{"parts":[{}]}}]}'')
          ''{"agent":"gemini","prompt":"hi"}'' accepted))
     = [''{"id":"id-0","role":"assistant"}'']\<close>
  by code_simp

section \<open>Successful generation\<close>

lemma rejected_fields:
  "rejected (JObj kvs) =
     Inr (\<not> (truthy (case map_of kvs ''agent'' of None \<Rightarrow> JUndefined | Some x \<Rightarrow> x)
            \<and> truthy (case map_of kvs ''prompt'' of None \<Rightarrow> JUndefined | Some x \<Rightarrow> x)))"
  by (simp add: rejected_def seq_def)

text \<open>
  C2. A well-formed message (an object whose \<open>agent\<close> is one of the three names and whose
  \<open>prompt\<close> is a non-empty string) whose backend call succeeds with the text \<open>t\<close> is answered
  by exactly one frame, of role \<open>assistant\<close> and content \<open>t\<close>, after exactly one backend call.
\<close>

theorem successful_generation_is_relayed:
  assumes "socket w = Open" and "\<forall>c. connection_lost_during rt c = None"
    and "json_parse rt data = Inr (JObj kvs)"
    and "map_of kvs ''agent'' = Some (JStr agent)"
    and "map_of kvs ''prompt'' = Some (JStr prompt)" and "prompt \<noteq> []"
    and "agent = ''cloudflare'' \<and>
           (\<exists>r. ai_run rt cloudflare_model (cloudflare_input (JStr prompt)) = Inr r
                \<and> get_prop r ''response'' = Inr (JStr t))
         \<or> agent = ''openai'' \<and>
           (\<exists>r body result. http_fetch rt (openai_request rt (JStr prompt)) = Inr r \<and> ok r
                \<and> body_text r = Inr body \<and> json_parse rt body = Inr result
                \<and> openai_content result = Inr (JStr t))
         \<or> agent = ''gemini'' \<and>
           (\<exists>r body result. http_fetch rt (gemini_request rt (JStr prompt)) = Inr r \<and> ok r
                \<and> body_text r = Inr body \<and> json_parse rt body = Inr result
                \<and> gemini_text result = Inr (JStr t))"
  shows "fst (on_message rt data w) = Inr () \<and>
         outbox (snd (on_message rt data w))
           = outbox w @ [frame (random_uuid rt (uuids_drawn w)) ''assistant'' (JStr t)] \<and>
         length (calls (snd (on_message rt data w))) = Suc (length (calls w))"
proof -
  have valid: "rejected (JObj kvs) = Inr False"
    using assms(4-7) by (auto simp add: rejected_fields)
  have "\<exists>w1. generate rt (JObj kvs) w = (Inr (JStr t), w1) \<and> socket w1 = Open
           \<and> outbox w1 = outbox w \<and> uuids_drawn w1 = uuids_drawn w
           \<and> length (calls w1) = Suc (length (calls w))"
    using assms(1,2,4,5,7)
    by (auto simp add: generate_eq generateWithCloudflare_eq generateWithOpenAI_eq
        generateWithGemini_eq http_outcome_def seq_def Let_def resumed_fields)
  then obtain w1 where gen: "generate rt (JObj kvs) w = (Inr (JStr t), w1)"
    and w1: "socket w1 = Open" "outbox w1 = outbox w" "uuids_drawn w1 = uuids_drawn w"
      "length (calls w1) = Suc (length (calls w))"
    by blast
  show ?thesis
    using assms(1-3) valid gen w1 by (simp add: on_message_eq reply_open)
qed

theorem successful_generation_is_relayed_witness:
  \<open>fst (on_message hello_platform ''{"agent":"cloudflare","prompt":"hi"}'' accepted) = Inr () \<and>
   outbox (snd (on_message hello_platform ''{"agent":"cloudflare","prompt":"hi"}'' accepted))
     = [''{"id":"id-0","role":"assistant","content":"hello"}'']\<close>
proof -
  have h1: "socket accepted = Open"
    by (simp add: accepted_def)
  have h2: "\<forall>c. connection_lost_during hello_platform c = None"
    by (simp add: hello_platform_def scenario_def)
  have h3: \<open>json_parse hello_platform ''{"agent":"cloudflare","prompt":"hi"}''
              = Inr (JObj [(''agent'', JStr ''cloudflare''), (''prompt'', JStr ''hi'')])\<close>
    by (simp add: hello_platform_def scenario_def scenario_parse_def)
  have h4: "map_of [(''agent'', JStr ''cloudflare''), (''prompt'', JStr ''hi'')] ''agent''
              = Some (JStr ''cloudflare'')"
    by simp
  have h5: "map_of [(''agent'', JStr ''cloudflare''), (''prompt'', JStr ''hi'')] ''prompt''
              = Some (JStr ''hi'')"
    by simp
  have h6: "''hi'' \<noteq> []"
    by simp
  have h7: "\<exists>r. ai_run hello_platform cloudflare_model (cloudflare_input (JStr ''hi'')) = Inr r
              \<and> get_prop r ''response'' = Inr (JStr ''hello'')"
    by (simp add: hello_platform_def scenario_def)
  have fr: \<open>frame (random_uuid hello_platform (uuids_drawn accepted)) ''assistant'' (JStr ''hello'')
              = ''{"id":"id-0","role":"assistant","content":"hello"}''\<close>
    by code_simp
  have ob: "outbox accepted = []"
    by (simp add: accepted_def)
  from successful_generation_is_relayed [OF h1 h2 h3 h4 h5 h6, of "''hello''"] h7 fr ob
  show ?thesis by simp
qed

section \<open>Validation failures\<close>

text \<open>
  C3. A payload without \<open>agent\<close>, without \<open>prompt\<close>, or with an empty \<open>prompt\<close> (an object
  lacking the member, or a value that is not an object at all) is answered by exactly one
  frame of role \<open>error\<close>, no backend is called, and the socket stays open: whatever arrives
  next is again answered by exactly one frame. The content is the invalid-format message,
  except for the payload \<open>null\<close>, where reading \<open>agent\<close> throws and the content reports that.
\<close>

theorem incomplete_message_is_rejected:
  assumes "socket w = Open"
    and "json_parse rt data = Inr msg"
    and "msg = JNull \<or> get_prop msg ''agent'' = Inr JUndefined
         \<or> get_prop msg ''prompt'' = Inr JUndefined \<or> get_prop msg ''prompt'' = Inr (JStr [])"
  shows "\<exists>text.
         fst (on_message rt data w) = Inr () \<and>
         outbox (snd (on_message rt data w))
           = outbox w @ [frame (random_uuid rt (uuids_drawn w)) ''error'' (JStr text)] \<and>
         (msg \<noteq> JNull \<longrightarrow> text = invalid_format) \<and>
         socket (snd (on_message rt data w)) = Open \<and>
         calls (snd (on_message rt data w)) = calls w \<and>
         (\<forall>rt' data'. (\<forall>c. connection_lost_during rt' c = None) \<longrightarrow>
            (\<exists>role content.
               fst (on_message rt' data' (snd (on_message rt data w))) = Inr () \<and>
               outbox (snd (on_message rt' data' (snd (on_message rt data w))))
                 = outbox (snd (on_message rt data w))
                   @ [frame (random_uuid rt' (Suc (uuids_drawn w))) role content]))"
proof -
  have "\<exists>text.
         fst (on_message rt data w) = Inr () \<and>
         outbox (snd (on_message rt data w))
           = outbox w @ [frame (random_uuid rt (uuids_drawn w)) ''error'' (JStr text)] \<and>
         socket (snd (on_message rt data w)) = Open \<and>
         calls (snd (on_message rt data w)) = calls w \<and>
         uuids_drawn (snd (on_message rt data w)) = Suc (uuids_drawn w) \<and>
         (msg \<noteq> JNull \<longrightarrow> text = invalid_format)"
  proof (cases "msg = JNull")
    case True
    then have "on_message rt data w = failure_reply rt (cannot_read ''null'' ''agent'') w"
      using assms(2) by (simp add: on_message_eq rejected_def seq_def)
    then show ?thesis
      using assms(1) True
      by (intro exI [of _ "''Failed to process your request: ''
                            @ message (cannot_read ''null'' ''agent'')"])
        (simp add: failure_reply_open)
  next
    case False
    with assms(3) have "rejected msg = Inr True"
      by (cases msg) (auto simp add: rejected_def seq_def split: option.splits)
    then have "on_message rt data w = reply rt ''error'' (JStr invalid_format) w"
      using assms(1,2) by (simp add: on_message_eq reply_open)
    then show ?thesis
      using assms(1) by (intro exI [of _ invalid_format]) (simp add: reply_open)
  qed
  then obtain shown where fields: "fst (on_message rt data w) = Inr ()"
    "outbox (snd (on_message rt data w))
       = outbox w @ [frame (random_uuid rt (uuids_drawn w)) ''error'' (JStr shown)]"
    "socket (snd (on_message rt data w)) = Open"
    "calls (snd (on_message rt data w)) = calls w"
    "uuids_drawn (snd (on_message rt data w)) = Suc (uuids_drawn w)"
    and shown: "msg \<noteq> JNull \<longrightarrow> shown = invalid_format"
    by blast
  have next_one: "\<exists>role content.
               fst (on_message rt' data' (snd (on_message rt data w))) = Inr () \<and>
               outbox (snd (on_message rt' data' (snd (on_message rt data w))))
                 = outbox (snd (on_message rt data w))
                   @ [frame (random_uuid rt' (Suc (uuids_drawn w))) role content]"
    if "\<forall>c. connection_lost_during rt' c = None" for rt' data'
    using fields(3) that
  proof (cases rule: on_message_open_cases [where data = data'])
    case (relayed msg' t w1)
    then show ?thesis
      using fields(5) by (auto simp add: reply_open)
  next
    case (invalid msg')
    then show ?thesis
      using fields(3,5) by (auto simp add: reply_open)
  next
    case (failed e w1)
    then show ?thesis
      using fields(5) by (auto simp add: failure_reply_open)
  qed
  show ?thesis
    using fields(1-4) shown next_one by blast
qed

theorem incomplete_message_is_rejected_witness:
  \<open>\<exists>text.
     outbox (snd (on_message hello_platform ''{"prompt":"hi"}'' accepted))
       = outbox accepted @ [frame (random_uuid hello_platform (uuids_drawn accepted)) ''error''
                              (JStr text)] \<and>
     text = invalid_format \<and>
     socket (snd (on_message hello_platform ''{"prompt":"hi"}'' accepted)) = Open \<and>
     (\<exists>role content.
        outbox (snd (on_message hello_platform ''{"agent":"cloudflare","prompt":"hi"}''
                       (snd (on_message hello_platform ''{"prompt":"hi"}'' accepted))))
          = outbox (snd (on_message hello_platform ''{"prompt":"hi"}'' accepted))
            @ [frame (random_uuid hello_platform (Suc (uuids_drawn accepted))) role content])\<close>
proof -
  have h1: "socket accepted = Open"
    by (simp add: accepted_def)
  have h2: \<open>json_parse hello_platform ''{"prompt":"hi"}'' = Inr (JObj [(''prompt'', JStr ''hi'')])\<close>
    by (simp add: hello_platform_def scenario_def scenario_parse_def)
  have h3: "JObj [(''prompt'', JStr ''hi'')] = JNull
            \<or> get_prop (JObj [(''prompt'', JStr ''hi'')]) ''agent'' = Inr JUndefined
            \<or> get_prop (JObj [(''prompt'', JStr ''hi'')]) ''prompt'' = Inr JUndefined
            \<or> get_prop (JObj [(''prompt'', JStr ''hi'')]) ''prompt'' = Inr (JStr [])"
    by simp
  have h4: "\<forall>c. connection_lost_during hello_platform c = None"
    by (simp add: hello_platform_def scenario_def)
  have h5: "JObj [(''prompt'', JStr ''hi'')] \<noteq> JNull"
    by simp
  from incomplete_message_is_rejected [OF h1 h2 h3] h4 h5 show ?thesis
    by blast
qed

section \<open>Unsupported agents\<close>




section \<open>Backend failures\<close>

lemma adapter_failure:
  "fst (generateWithCloudflare rt p w) = Inl e \<Longrightarrow> e = cloudflare_failed"
  "fst (generateWithOpenAI rt p w) = Inl e \<Longrightarrow> e = openai_failed"
  "fst (generateWithGemini rt p w) = Inl e \<Longrightarrow> e = gemini_failed"
  by (simp_all add: generateWithCloudflare_eq generateWithOpenAI_eq generateWithGemini_eq
      Let_def split: sum.splits)

lemma adapter_calls:
  "calls (snd (generateWithCloudflare rt p w))
     = calls w @ [AiRun cloudflare_model (cloudflare_input p)]"
  "calls (snd (generateWithOpenAI rt p w)) = calls w @ [Fetch (openai_request rt p)]"
  "calls (snd (generateWithGemini rt p w)) = calls w @ [Fetch (gemini_request rt p)]"
  by (simp_all add: generateWithCloudflare_eq generateWithOpenAI_eq generateWithGemini_eq
      Let_def resumed_fields split: sum.splits)

text \<open>
  Where an adapter does throw, the session behaves as the specification asks: one call,
  one \<open>error\<close> frame, socket open.
\<close>

lemma thrown_backend_failure_is_reported:
  assumes "socket w = Open" and "\<forall>c. connection_lost_during rt c = None"
    and "json_parse rt data = Inr msg" and "rejected msg = Inr False"
    and "get_prop msg ''agent'' = Inr (JStr agent)"
    and "agent = ''cloudflare'' \<or> agent = ''openai'' \<or> agent = ''gemini''"
    and "fst (generate rt msg w) = Inl e"
  shows "e = (if agent = ''cloudflare'' then cloudflare_failed
              else if agent = ''openai'' then openai_failed else gemini_failed)"
    and "fst (on_message rt data w) = Inr ()"
    and "socket (snd (on_message rt data w)) = Open"
    and "outbox (snd (on_message rt data w))
           = outbox w @ [frame (random_uuid rt (uuids_drawn w)) ''error''
                          (JStr (''Failed to process your request: '' @ message e))]"
    and "length (calls (snd (on_message rt data w))) = Suc (length (calls w))"
proof -
  obtain p where p: "get_prop msg ''prompt'' = Inr p"
    using assms(5) by (cases msg) simp_all
  obtain r w1 where gen: "generate rt msg w = (r, w1)"
    by (cases "generate rt msg w")
  with assms(7) have r: "r = Inl e" by simp
  have w1: "socket w1 = Open" "outbox w1 = outbox w" "uuids_drawn w1 = uuids_drawn w"
    using generate_socket [OF assms(2), of msg w] generate_frame [of rt msg w] gen assms(1)
    by simp_all
  have c1: "length (calls w1) = Suc (length (calls w))"
    using gen assms(5,6) p adapter_calls [of rt p w]
    by (auto simp add: generate_eq)
  show "e = (if agent = ''cloudflare'' then cloudflare_failed
              else if agent = ''openai'' then openai_failed else gemini_failed)"
    using assms(5-7) p adapter_failure [of rt p w e]
    by (auto simp add: generate_eq)
  have eq: "on_message rt data w = failure_reply rt e w1"
    using assms(1-4) gen r by (simp add: on_message_eq)
  show "fst (on_message rt data w) = Inr ()"
    and "socket (snd (on_message rt data w)) = Open"
    and "outbox (snd (on_message rt data w))
           = outbox w @ [frame (random_uuid rt (uuids_drawn w)) ''error''
                          (JStr (''Failed to process your request: '' @ message e))]"
    and "length (calls (snd (on_message rt data w))) = Suc (length (calls w))"
    using w1 c1 by (simp_all add: eq failure_reply_open)
qed

text \<open>
  C5. The specification counts a structurally malformed body among the backend failures
  that surface as one \<open>error\<close> frame. A 200 answer whose JSON lacks the last field of the path
  (\<open>content\<close> here) is not a failure for the adapter: the property read yields \<open>undefined\<close>,
  the adapter returns it, and the session sends a frame of role \<open>assistant\<close> with no
  \<open>content\<close> at all. The same happens when the Workers AI binding answers an object
  without \<open>response\<close>.
\<close>

theorem missing_text_field_is_relayed_as_assistant:
  \<open>fst (on_message (answering_platform ''{"choices":[{"message":{}}]}'')
          ''{"agent":"openai","prompt":"hi"}'' accepted) = Inr () \<and>
   outbox (snd (on_message (answering_platform ''{"choices":[{"message":{}}]}'')
          ''{"agent":"openai","prompt":"hi"}'' accepted))
     = [''{"id":"id-0","role":"assistant"}''] \<and>
   ai_run (answering_platform ''{"choices":[{"message":{}}]}'') cloudflare_model
       (cloudflare_input (JStr ''hi'')) = Inr (JObj []) \<and>
   outbox (snd (on_message (answering_platform ''{"choices":[{"message":{}}]}'')
          ''{"agent":"cloudflare","prompt":"hi"}'' accepted))
     = [''{"id":"id-0","role":"assistant"}'']\<close>
  by code_simp

section \<open>Writes after the client has gone\<close>






section \<open>What an error frame discloses\<close>

lemma non_success_status_fails:
  assumes "\<not> ok r"
  shows "http_fetch rt (openai_request rt p) = Inr r \<Longrightarrow>
           fst (generateWithOpenAI rt p w) = Inl openai_failed"
    and "http_fetch rt (gemini_request rt p) = Inr r \<Longrightarrow>
           fst (generateWithGemini rt p w) = Inl gemini_failed"
  using assms
  by (simp_all add: generateWithOpenAI_eq generateWithGemini_eq http_outcome_def seq_def Let_def
      split: sum.splits)

text \<open>
  C7. Take two runs on the same message that differ only in what the providers answer
  (the Workers AI binding and \<open>fetch\<close>), the backend failing in both. The error thrown by
  the adapter is the fixed \<open>Error\<close> of the selected adapter in both runs, the content of the
  frame is \<open>Failed to process your request:\<close> followed by that fixed message, and the two
  runs write the same frames: nothing of the provider's answer reaches the client.
\<close>

theorem backend_failure_content_is_generic:
  assumes "socket w = Open" and "\<forall>c. connection_lost_during rt c = None"
    and "rt' = rt\<lparr>ai_run := ai', http_fetch := fetch'\<rparr>"
    and "json_parse rt data = Inr msg" and "rejected msg = Inr False"
    and "get_prop msg ''agent'' = Inr (JStr agent)"
    and "agent = ''cloudflare'' \<or> agent = ''openai'' \<or> agent = ''gemini''"
    and "fst (generate rt msg w) = Inl e" and "fst (generate rt' msg w) = Inl e'"
  shows "e = (if agent = ''cloudflare'' then cloudflare_failed
              else if agent = ''openai'' then openai_failed else gemini_failed) \<and>
         e' = e \<and>
         outbox (snd (on_message rt data w))
           = outbox w @ [frame (random_uuid rt (uuids_drawn w)) ''error''
                          (JStr (''Failed to process your request: '' @ message e))] \<and>
         outbox (snd (on_message rt' data w)) = outbox (snd (on_message rt data w))"
proof -
  have same: "\<forall>c. connection_lost_during rt' c = None" "json_parse rt' data = Inr msg"
    "random_uuid rt' = random_uuid rt"
    using assms(2-4) by simp_all
  note first = thrown_backend_failure_is_reported [OF assms(1,2,4-8)]
  note second = thrown_backend_failure_is_reported [OF assms(1) same(1,2) assms(5-7,9)]
  show ?thesis
    using first(1,4) second(1,4) same(3) by simp
qed

theorem backend_failure_content_is_generic_witness:
  \<open>outbox (snd (on_message (refusing_platform ''quota exceeded for key sk-live-1'')
                  ''{"agent":"openai","prompt":"hi"}'' accepted))
     = [frame ''id-0'' ''error''
          (JStr ''Failed to process your request: Failed to generate response with OpenAI.'')] \<and>
   outbox (snd (on_message (refusing_platform ''internal error at shard 7'')
                  ''{"agent":"openai","prompt":"hi"}'' accepted))
     = outbox (snd (on_message (refusing_platform ''quota exceeded for key sk-live-1'')
                  ''{"agent":"openai","prompt":"hi"}'' accepted))\<close>
proof -
  let ?rt = "refusing_platform ''quota exceeded for key sk-live-1''"
  let ?rt' = "refusing_platform ''internal error at shard 7''"
  let ?msg = "JObj [(''agent'', JStr ''openai''), (''prompt'', JStr ''hi'')]"
  have h1: "socket accepted = Open"
    by (simp add: accepted_def)
  have h2: "\<forall>c. connection_lost_during ?rt c = None"
    by (simp add: refusing_platform_def scenario_def)
  have h3: "?rt' = ?rt\<lparr>ai_run := ai_run ?rt', http_fetch := http_fetch ?rt'\<rparr>"
    by (simp add: refusing_platform_def scenario_def)
  have h4: \<open>json_parse ?rt ''{"agent":"openai","prompt":"hi"}'' = Inr ?msg\<close>
    by (simp add: refusing_platform_def scenario_def scenario_parse_def)
  have h5: "rejected ?msg = Inr False"
    by (simp add: rejected_def seq_def)
  have h6: "get_prop ?msg ''agent'' = Inr (JStr ''openai'')"
    by simp
  have h8: "fst (generate ?rt ?msg accepted) = Inl openai_failed"
    by (simp add: generate_eq non_success_status_fails(1) [where r = "\<lparr>status = 500, body_text = Inr ''quota exceeded for key sk-live-1''\<rparr>"]
        ok_def refusing_platform_def scenario_def)
  have h9: "fst (generate ?rt' ?msg accepted) = Inl openai_failed"
    by (simp add: generate_eq non_success_status_fails(1) [where r = "\<lparr>status = 500, body_text = Inr ''internal error at shard 7''\<rparr>"]
        ok_def refusing_platform_def scenario_def)
  have id0: "random_uuid ?rt (uuids_drawn accepted) = ''id-0''"
    by code_simp
  have ob: "outbox accepted = []"
    by (simp add: accepted_def)
  from backend_failure_content_is_generic [OF h1 h2 h3 h4 h5 h6 _ h8 h9] id0 ob
  show ?thesis
    by (simp add: openai_failed_def Error_def)
qed

section \<open>What an adapter returns\<close>

text \<open>
  C8, as the code has it. An adapter has one failure, a plain \<open>Error\<close> with the adapter's
  fixed message, whatever went wrong: the call rejected, the status was not a success,
  the body could not be read or parsed, or a property on the way to the text was missing
  so that the read threw. No other exception leaves the adapter. When the text field
  (\<open>response\<close> of the Workers AI result, \<open>choices[0].message.content\<close> of the OpenAI body,
  \<open>candidates[0].content.parts[0].text\<close> of the Gemini body) holds a string, the adapter
  returns that string, empty or not.
\<close>

theorem adapter_result_shape:
  "(\<forall>e. fst (generateWithCloudflare rt p w) = Inl e \<longrightarrow> e = cloudflare_failed) \<and>
   (\<forall>e. ai_run rt cloudflare_model (cloudflare_input p) = Inl e \<longrightarrow>
      fst (generateWithCloudflare rt p w) = Inl cloudflare_failed) \<and>
   (\<forall>r. ai_run rt cloudflare_model (cloudflare_input p) = Inr r \<longrightarrow>
      (\<forall>e. get_prop r ''response'' = Inl e \<longrightarrow>
         fst (generateWithCloudflare rt p w) = Inl cloudflare_failed) \<and>
      (\<forall>t. get_prop r ''response'' = Inr (JStr t) \<longrightarrow>
         fst (generateWithCloudflare rt p w) = Inr (JStr t))) \<and>
   (\<forall>e. fst (generateWithOpenAI rt p w) = Inl e \<longrightarrow> e = openai_failed) \<and>
   (\<forall>e. http_fetch rt (openai_request rt p) = Inl e \<longrightarrow>
      fst (generateWithOpenAI rt p w) = Inl openai_failed) \<and>
   (\<forall>r. http_fetch rt (openai_request rt p) = Inr r \<longrightarrow>
      (\<not> ok r \<longrightarrow> fst (generateWithOpenAI rt p w) = Inl openai_failed) \<and>
      (\<forall>e. ok r \<and> body_text r = Inl e \<longrightarrow>
         fst (generateWithOpenAI rt p w) = Inl openai_failed) \<and>
      (\<forall>b. ok r \<and> body_text r = Inr b \<longrightarrow>
         (\<forall>e. json_parse rt b = Inl e \<longrightarrow>
            fst (generateWithOpenAI rt p w) = Inl openai_failed) \<and>
         (\<forall>result. json_parse rt b = Inr result \<longrightarrow>
            (\<forall>e. get_prop result ''choices'' = Inl e \<longrightarrow>
               fst (generateWithOpenAI rt p w) = Inl openai_failed) \<and>
            (\<forall>choices. get_prop result ''choices'' = Inr choices \<longrightarrow>
               (\<forall>e. get_index0 choices = Inl e \<longrightarrow>
                  fst (generateWithOpenAI rt p w) = Inl openai_failed) \<and>
               (\<forall>choice. get_index0 choices = Inr choice \<longrightarrow>
                  (\<forall>e. get_prop choice ''message'' = Inl e \<longrightarrow>
                     fst (generateWithOpenAI rt p w) = Inl openai_failed) \<and>
                  (\<forall>m. get_prop choice ''message'' = Inr m \<longrightarrow>
                     (\<forall>e. get_prop m ''content'' = Inl e \<longrightarrow>
                        fst (generateWithOpenAI rt p w) = Inl openai_failed) \<and>
                     (\<forall>t. get_prop m ''content'' = Inr (JStr t) \<longrightarrow>
                        fst (generateWithOpenAI rt p w) = Inr (JStr t)))))))) \<and>
   (\<forall>e. fst (generateWithGemini rt p w) = Inl e \<longrightarrow> e = gemini_failed) \<and>
   (\<forall>e. http_fetch rt (gemini_request rt p) = Inl e \<longrightarrow>
      fst (generateWithGemini rt p w) = Inl gemini_failed) \<and>
   (\<forall>r. http_fetch rt (gemini_request rt p) = Inr r \<longrightarrow>
      (\<not> ok r \<longrightarrow> fst (generateWithGemini rt p w) = Inl gemini_failed) \<and>
      (\<forall>e. ok r \<and> body_text r = Inl e \<longrightarrow>
         fst (generateWithGemini rt p w) = Inl gemini_failed) \<and>
      (\<forall>b. ok r \<and> body_text r = Inr b \<longrightarrow>
         (\<forall>e. json_parse rt b = Inl e \<longrightarrow>
            fst (generateWithGemini rt p w) = Inl gemini_failed) \<and>
         (\<forall>result. json_parse rt b = Inr result \<longrightarrow>
            (\<forall>e. get_prop result ''candidates'' = Inl e \<longrightarrow>
               fst (generateWithGemini rt p w) = Inl gemini_failed) \<and>
            (\<forall>candidates. get_prop result ''candidates'' = Inr candidates \<longrightarrow>
               (\<forall>e. get_index0 candidates = Inl e \<longrightarrow>
                  fst (generateWithGemini rt p w) = Inl gemini_failed) \<and>
               (\<forall>candidate. get_index0 candidates = Inr candidate \<longrightarrow>
                  (\<forall>e. get_prop candidate ''content'' = Inl e \<longrightarrow>
                     fst (generateWithGemini rt p w) = Inl gemini_failed) \<and>
                  (\<forall>content. get_prop candidate ''content'' = Inr content \<longrightarrow>
                     (\<forall>e. get_prop content ''parts'' = Inl e \<longrightarrow>
                        fst (generateWithGemini rt p w) = Inl gemini_failed) \<and>
                     (\<forall>parts. get_prop content ''parts'' = Inr parts \<longrightarrow>
                        (\<forall>e. get_index0 parts = Inl e \<longrightarrow>
                           fst (generateWithGemini rt p w) = Inl gemini_failed) \<and>
                        (\<forall>part. get_index0 parts = Inr part \<longrightarrow>
                           (\<forall>e. get_prop part ''text'' = Inl e \<longrightarrow>
                              fst (generateWithGemini rt p w) = Inl gemini_failed) \<and>
                           (\<forall>t. get_prop part ''text'' = Inr (JStr t) \<longrightarrow>
                              fst (generateWithGemini rt p w) = Inr (JStr t))))))))))"
proof -
  have cf: "(\<forall>e. fst (generateWithCloudflare rt p w) = Inl e \<longrightarrow> e = cloudflare_failed) \<and>
   (\<forall>e. ai_run rt cloudflare_model (cloudflare_input p) = Inl e \<longrightarrow>
      fst (generateWithCloudflare rt p w) = Inl cloudflare_failed) \<and>
   (\<forall>r. ai_run rt cloudflare_model (cloudflare_input p) = Inr r \<longrightarrow>
      (\<forall>e. get_prop r ''response'' = Inl e \<longrightarrow>
         fst (generateWithCloudflare rt p w) = Inl cloudflare_failed) \<and>
      (\<forall>t. get_prop r ''response'' = Inr (JStr t) \<longrightarrow>
         fst (generateWithCloudflare rt p w) = Inr (JStr t)))"
    by (simp add: generateWithCloudflare_eq seq_def Let_def split: sum.splits)
  have oa_fail: "\<forall>e. fst (generateWithOpenAI rt p w) = Inl e \<longrightarrow> e = openai_failed"
    by (simp add: generateWithOpenAI_eq Let_def split: sum.splits)
  have ge_fail: "\<forall>e. fst (generateWithGemini rt p w) = Inl e \<longrightarrow> e = gemini_failed"
    by (simp add: generateWithGemini_eq Let_def split: sum.splits)
  have oa: "fst (generateWithOpenAI rt p w) =
      (case seq (http_fetch rt (openai_request rt p)) (http_outcome ''OpenAI'' rt openai_content) of
         Inl e \<Rightarrow> Inl openai_failed | Inr v \<Rightarrow> Inr v)"
    by (simp add: generateWithOpenAI_eq Let_def split: sum.splits)
  have ge: "fst (generateWithGemini rt p w) =
      (case seq (http_fetch rt (gemini_request rt p)) (http_outcome ''Gemini'' rt gemini_text) of
         Inl e \<Rightarrow> Inl gemini_failed | Inr v \<Rightarrow> Inr v)"
    by (simp add: generateWithGemini_eq Let_def split: sum.splits)
  have oa_all: "(\<forall>e. http_fetch rt (openai_request rt p) = Inl e \<longrightarrow>
      fst (generateWithOpenAI rt p w) = Inl openai_failed) \<and>
   (\<forall>r. http_fetch rt (openai_request rt p) = Inr r \<longrightarrow>
      (\<not> ok r \<longrightarrow> fst (generateWithOpenAI rt p w) = Inl openai_failed) \<and>
      (\<forall>e. ok r \<and> body_text r = Inl e \<longrightarrow>
         fst (generateWithOpenAI rt p w) = Inl openai_failed) \<and>
      (\<forall>b. ok r \<and> body_text r = Inr b \<longrightarrow>
         (\<forall>e. json_parse rt b = Inl e \<longrightarrow>
            fst (generateWithOpenAI rt p w) = Inl openai_failed) \<and>
         (\<forall>result. json_parse rt b = Inr result \<longrightarrow>
            (\<forall>e. get_prop result ''choices'' = Inl e \<longrightarrow>
               fst (generateWithOpenAI rt p w) = Inl openai_failed) \<and>
            (\<forall>choices. get_prop result ''choices'' = Inr choices \<longrightarrow>
               (\<forall>e. get_index0 choices = Inl e \<longrightarrow>
                  fst (generateWithOpenAI rt p w) = Inl openai_failed) \<and>
               (\<forall>choice. get_index0 choices = Inr choice \<longrightarrow>
                  (\<forall>e. get_prop choice ''message'' = Inl e \<longrightarrow>
                     fst (generateWithOpenAI rt p w) = Inl openai_failed) \<and>
                  (\<forall>m. get_prop choice ''message'' = Inr m \<longrightarrow>
                     (\<forall>e. get_prop m ''content'' = Inl e \<longrightarrow>
                        fst (generateWithOpenAI rt p w) = Inl openai_failed) \<and>
                     (\<forall>t. get_prop m ''content'' = Inr (JStr t) \<longrightarrow>
                        fst (generateWithOpenAI rt p w) = Inr (JStr t))))))))"
    by (auto simp add: oa http_outcome_def openai_content_def seq_def split: sum.splits)
  have ge_all: "(\<forall>e. http_fetch rt (gemini_request rt p) = Inl e \<longrightarrow>
      fst (generateWithGemini rt p w) = Inl gemini_failed) \<and>
   (\<forall>r. http_fetch rt (gemini_request rt p) = Inr r \<longrightarrow>
      (\<not> ok r \<longrightarrow> fst (generateWithGemini rt p w) = Inl gemini_failed) \<and>
      (\<forall>e. ok r \<and> body_text r = Inl e \<longrightarrow>
         fst (generateWithGemini rt p w) = Inl gemini_failed) \<and>
      (\<forall>b. ok r \<and> body_text r = Inr b \<longrightarrow>
         (\<forall>e. json_parse rt b = Inl e \<longrightarrow>
            fst (generateWithGemini rt p w) = Inl gemini_failed) \<and>
         (\<forall>result. json_parse rt b = Inr result \<longrightarrow>
            (\<forall>e. get_prop result ''candidates'' = Inl e \<longrightarrow>
               fst (generateWithGemini rt p w) = Inl gemini_failed) \<and>
            (\<forall>candidates. get_prop result ''candidates'' = Inr candidates \<longrightarrow>
               (\<forall>e. get_index0 candidates = Inl e \<longrightarrow>
                  fst (generateWithGemini rt p w) = Inl gemini_failed) \<and>
               (\<forall>candidate. get_index0 candidates = Inr candidate \<longrightarrow>
                  (\<forall>e. get_prop candidate ''content'' = Inl e \<longrightarrow>
                     fst (generateWithGemini rt p w) = Inl gemini_failed) \<and>
                  (\<forall>content. get_prop candidate ''content'' = Inr content \<longrightarrow>
                     (\<forall>e. get_prop content ''parts'' = Inl e \<longrightarrow>
                        fst (generateWithGemini rt p w) = Inl gemini_failed) \<and>
                     (\<forall>parts. get_prop content ''parts'' = Inr parts \<longrightarrow>
                        (\<forall>e. get_index0 parts = Inl e \<longrightarrow>
                           fst (generateWithGemini rt p w) = Inl gemini_failed) \<and>
                        (\<forall>part. get_index0 parts = Inr part \<longrightarrow>
                           (\<forall>e. get_prop part ''text'' = Inl e \<longrightarrow>
                              fst (generateWithGemini rt p w) = Inl gemini_failed) \<and>
                           (\<forall>t. get_prop part ''text'' = Inr (JStr t) \<longrightarrow>
                              fst (generateWithGemini rt p w) = Inr (JStr t))))))))))"
    by (auto simp add: ge http_outcome_def gemini_text_def seq_def split: sum.splits)
  from cf oa_fail oa_all ge_fail ge_all show ?thesis
    by (intro conjI) (erule conjE | assumption)+
qed

theorem adapter_result_shape_witness:
  \<open>fst (generateWithCloudflare hello_platform (JStr ''hi'') accepted) = Inr (JStr ''hello'') \<and>
   fst (generateWithCloudflare (refusing_platform ''overloaded'') (JStr ''hi'') accepted)
     = Inl cloudflare_failed \<and>
   fst (generateWithOpenAI (answering_platform ''{"choices":[{"message":{"content":"hello"}}]}'')
          (JStr ''hi'') accepted) = Inr (JStr ''hello'') \<and>
   fst (generateWithOpenAI (answering_platform ''{"choices":[]}'') (JStr ''hi'') accepted)
     = Inl openai_failed \<and>
   fst (generateWithOpenAI (refusing_platform ''overloaded'') (JStr ''hi'') accepted)
     = Inl openai_failed \<and>
   fst (generateWithGemini
          (answering_platform ''{"candidates":[{"content":{"parts":[{"text":"hello"}]}}]}'')
          (JStr ''hi'') accepted) = Inr (JStr ''hello'') \<and>
   fst (generateWithGemini (answering_platform ''{"candidates":[]}'') (JStr ''hi'') accepted)
     = Inl gemini_failed\<close>
proof -
  let ?p = "JStr ''hi''"
  let ?no = \<open>refusing_platform ''overloaded''\<close>
  let ?oa = \<open>answering_platform ''{"choices":[{"message":{"content":"hello"}}]}''\<close>
  let ?oa_bad = \<open>answering_platform ''{"choices":[]}''\<close>
  let ?ge = \<open>answering_platform ''{"candidates":[{"content":{"parts":[{"text":"hello"}]}}]}''\<close>
  let ?ge_bad = \<open>answering_platform ''{"candidates":[]}''\<close>
  have cf: "ai_run hello_platform cloudflare_model (cloudflare_input ?p)
              = Inr (JObj [(''response'', JStr ''hello'')]) \<and>
            get_prop (JObj [(''response'', JStr ''hello'')]) ''response'' = Inr (JStr ''hello'')"
    by (simp add: hello_platform_def scenario_def)
  have cf_no: "ai_run ?no cloudflare_model (cloudflare_input ?p) = Inl (Error ''overloaded'')"
    by (simp add: refusing_platform_def scenario_def)
  have oa: \<open>http_fetch ?oa (openai_request ?oa ?p)
        = Inr \<lparr>status = 200, body_text = Inr ''{"choices":[{"message":{"content":"hello"}}]}''\<rparr> \<and>
      ok \<lparr>status = 200, body_text = Inr ''{"choices":[{"message":{"content":"hello"}}]}''\<rparr> \<and>
      body_text \<lparr>status = 200, body_text = Inr ''{"choices":[{"message":{"content":"hello"}}]}''\<rparr>
        = Inr ''{"choices":[{"message":{"content":"hello"}}]}'' \<and>
      json_parse ?oa ''{"choices":[{"message":{"content":"hello"}}]}''
        = Inr (JObj [(''choices'', JArr [JObj [(''message'', JObj [(''content'', JStr ''hello'')])]])]) \<and>
      get_prop (JObj [(''choices'', JArr [JObj [(''message'', JObj [(''content'', JStr ''hello'')])]])])
          ''choices''
        = Inr (JArr [JObj [(''message'', JObj [(''content'', JStr ''hello'')])]]) \<and>
      get_index0 (JArr [JObj [(''message'', JObj [(''content'', JStr ''hello'')])]])
        = Inr (JObj [(''message'', JObj [(''content'', JStr ''hello'')])]) \<and>
      get_prop (JObj [(''message'', JObj [(''content'', JStr ''hello'')])]) ''message''
        = Inr (JObj [(''content'', JStr ''hello'')]) \<and>
      get_prop (JObj [(''content'', JStr ''hello'')]) ''content'' = Inr (JStr ''hello'')\<close>
    by (simp add: answering_platform_def scenario_def scenario_parse_def ok_def)
  have oa_bad: \<open>http_fetch ?oa_bad (openai_request ?oa_bad ?p)
        = Inr \<lparr>status = 200, body_text = Inr ''{"choices":[]}''\<rparr> \<and>
      ok \<lparr>status = 200, body_text = Inr ''{"choices":[]}''\<rparr> \<and>
      body_text \<lparr>status = 200, body_text = Inr ''{"choices":[]}''\<rparr> = Inr ''{"choices":[]}'' \<and>
      json_parse ?oa_bad ''{"choices":[]}'' = Inr (JObj [(''choices'', JArr [])]) \<and>
      get_prop (JObj [(''choices'', JArr [])]) ''choices'' = Inr (JArr []) \<and>
      get_index0 (JArr []) = Inr JUndefined \<and>
      get_prop JUndefined ''message'' = Inl (cannot_read ''undefined'' ''message'')\<close>
    by (simp add: answering_platform_def scenario_def scenario_parse_def ok_def)
  have oa_no: \<open>http_fetch ?no (openai_request ?no ?p)
        = Inr \<lparr>status = 500, body_text = Inr ''overloaded''\<rparr> \<and>
      \<not> ok \<lparr>status = 500, body_text = Inr ''overloaded''\<rparr>\<close>
    by (simp add: refusing_platform_def scenario_def ok_def)
  have ge: \<open>http_fetch ?ge (gemini_request ?ge ?p)
        = Inr \<lparr>status = 200,
               body_text = Inr ''{"candidates":[{"content":{"parts":[{"text":"hello"}]}}]}''\<rparr> \<and>
      ok \<lparr>status = 200,
          body_text = Inr ''{"candidates":[{"content":{"parts":[{"text":"hello"}]}}]}''\<rparr> \<and>
      body_text \<lparr>status = 200,
          body_text = Inr ''{"candidates":[{"content":{"parts":[{"text":"hello"}]}}]}''\<rparr>
        = Inr ''{"candidates":[{"content":{"parts":[{"text":"hello"}]}}]}'' \<and>
      json_parse ?ge ''{"candidates":[{"content":{"parts":[{"text":"hello"}]}}]}''
        = Inr (JObj [(''candidates'',
                 JArr [JObj [(''content'',
                   JObj [(''parts'', JArr [JObj [(''text'', JStr ''hello'')]])])]])]) \<and>
      get_prop (JObj [(''candidates'',
                 JArr [JObj [(''content'',
                   JObj [(''parts'', JArr [JObj [(''text'', JStr ''hello'')]])])]])]) ''candidates''
        = Inr (JArr [JObj [(''content'',
                   JObj [(''parts'', JArr [JObj [(''text'', JStr ''hello'')]])])]]) \<and>
      get_index0 (JArr [JObj [(''content'',
                   JObj [(''parts'', JArr [JObj [(''text'', JStr ''hello'')]])])]])
        = Inr (JObj [(''content'', JObj [(''parts'', JArr [JObj [(''text'', JStr ''hello'')]])])]) \<and>
      get_prop (JObj [(''content'', JObj [(''parts'', JArr [JObj [(''text'', JStr ''hello'')]])])])
          ''content''
        = Inr (JObj [(''parts'', JArr [JObj [(''text'', JStr ''hello'')]])]) \<and>
      get_prop (JObj [(''parts'', JArr [JObj [(''text'', JStr ''hello'')]])]) ''parts''
        = Inr (JArr [JObj [(''text'', JStr ''hello'')]]) \<and>
      get_index0 (JArr [JObj [(''text'', JStr ''hello'')]]) = Inr (JObj [(''text'', JStr ''hello'')]) \<and>
      get_prop (JObj [(''text'', JStr ''hello'')]) ''text'' = Inr (JStr ''hello'')\<close>
    by (simp add: answering_platform_def scenario_def scenario_parse_def ok_def)
  have ge_bad: \<open>http_fetch ?ge_bad (gemini_request ?ge_bad ?p)
        = Inr \<lparr>status = 200, body_text = Inr ''{"candidates":[]}''\<rparr> \<and>
      ok \<lparr>status = 200, body_text = Inr ''{"candidates":[]}''\<rparr> \<and>
      body_text \<lparr>status = 200, body_text = Inr ''{"candidates":[]}''\<rparr>
        = Inr ''{"candidates":[]}'' \<and>
      json_parse ?ge_bad ''{"candidates":[]}'' = Inr (JObj [(''candidates'', JArr [])]) \<and>
      get_prop (JObj [(''candidates'', JArr [])]) ''candidates'' = Inr (JArr []) \<and>
      get_index0 (JArr []) = Inr JUndefined \<and>
      get_prop JUndefined ''content'' = Inl (cannot_read ''undefined'' ''content'')\<close>
    by (simp add: answering_platform_def scenario_def scenario_parse_def ok_def)
  from adapter_result_shape [of hello_platform ?p accepted] cf
  have 1: "fst (generateWithCloudflare hello_platform ?p accepted) = Inr (JStr ''hello'')"
    by simp
  from adapter_result_shape [of ?no ?p accepted] cf_no
  have 2: "fst (generateWithCloudflare ?no ?p accepted) = Inl cloudflare_failed"
    by simp
  from adapter_result_shape [of ?oa ?p accepted] oa
  have 3: "fst (generateWithOpenAI ?oa ?p accepted) = Inr (JStr ''hello'')"
    by simp
  from adapter_result_shape [of ?oa_bad ?p accepted] oa_bad
  have 4: "fst (generateWithOpenAI ?oa_bad ?p accepted) = Inl openai_failed"
    by simp
  from adapter_result_shape [of ?no ?p accepted] oa_no
  have 5: "fst (generateWithOpenAI ?no ?p accepted) = Inl openai_failed"
    by simp
  from adapter_result_shape [of ?ge ?p accepted] ge
  have 6: "fst (generateWithGemini ?ge ?p accepted) = Inr (JStr ''hello'')"
    by simp
  from adapter_result_shape [of ?ge_bad ?p accepted] ge_bad
  have 7: "fst (generateWithGemini ?ge_bad ?p accepted) = Inl gemini_failed"
    by simp
  from 1 2 3 4 5 6 7 show ?thesis by simp
qed

theorem adapter_returns_empty_text:
  \<open>fst (generateWithOpenAI (answering_platform ''{"choices":[{"message":{"content":""}}]}'')
          (JStr ''hi'') accepted) = Inr (JStr [])\<close>
  by code_simp

section \<open>What validation looks at\<close>



section \<open>Round trip of the wire form\<close>

lemma hex_value_hex_digit: "d < 16 \<Longrightarrow> hex_value (hex_digit d) = Some d"
  by (auto simp add: hex_value_def hex_digit_def Let_def)

lemma read_chars_quote_char:
  "read_chars (quote_char c @ tail) = push c (read_chars tail)"
proof -
  have ctl: "code_unit (CHR ''0'') (CHR ''0'') (hex_digit (of_char c div 16))
               (hex_digit (of_char c mod 16)) = Some c"
    if "of_char c < (32::nat)"
  proof -
    have "(of_char c :: nat) div 16 < 16" "(of_char c :: nat) mod 16 < 16"
      using that by simp_all
    then have "hex_value (hex_digit (of_char c div 16)) = Some (of_char c div 16)"
      and "hex_value (hex_digit (of_char c mod 16)) = Some (of_char c mod 16)"
      by (simp_all add: hex_value_hex_digit)
    moreover have "hex_value (CHR ''0'') = Some 0"
      by (simp add: hex_value_def)
    moreover have "(of_char c :: nat) div 16 * 16 + of_char c mod 16 = of_char c"
      by simp
    ultimately show ?thesis
      using that by (simp add: code_unit_def Let_def)
  qed
  show ?thesis
    using ctl by (simp add: quote_char_def unescape_def)
qed

lemma read_chars_quoted:
  "read_chars (concat (map quote_char s) @ CHR 0x22 # rest) = Some (s, rest)"
  by (induction s) (simp_all add: read_chars_quote_char push_def)

lemma read_string_quote: "read_string (quote s @ rest) = Some (s, rest)"
  using read_chars_quoted [of s rest] by (simp add: read_string_def quote_def)

lemma expect_prefix: "expect p (p @ s) = Some s"
  by (simp add: expect_def)

lemma frame_text:
  \<open>frame ident r (JStr content) =
     ''{"id":'' @ quote ident @ '',"role":'' @ quote r @ '',"content":'' @ quote content @ ''}''\<close>
proof -
  have \<open>quote ''id'' = ''"id"''\<close> \<open>quote ''role'' = ''"role"''\<close> \<open>quote ''content'' = ''"content"''\<close>
    by code_simp+
  then show ?thesis
    by (simp add: frame_def JSON_stringify_def)
qed

lemma role_of_role_name: "role_of (role_name r) = Some r"
  by (cases r) (simp_all add: role_of_def role_name_def)

text \<open>
  C9. Decoding the wire form of a canonical response gives the response back, with its
  role and content (and its identifier), so that encoding it again gives the same frame.
\<close>

theorem decode_encode:
  "decode (encode r) = Some r \<and> map_option encode (decode (encode r)) = Some (encode r)"
proof -
  have \<open>decode (''{"id":'' @ quote ident @ '',"role":'' @ quote (role_name ro)
                 @ '',"content":'' @ quote content @ ''}'')
         = Some \<lparr>response_id = ident, response_role = ro, response_content = content\<rparr>\<close>
    for ident ro content
    unfolding decode_def
    by (simp only: expect_prefix read_string_quote role_of_role_name option.case prod.case)
      simp
  then have "decode (encode r) = Some r"
    by (simp add: encode_def frame_text)
  then show ?thesis by simp
qed

end
